theory Spec2Isabelle
  imports Complex_Main
begin

section \<open>Spike sorting of one animal day: the data model\<close>

text \<open>
  The program walks an animal day (a directory of epochs, each a directory of ntrodes),
  creates one output directory per ntrode and hands one sorting job per ntrode to a job
  queue. The job is the processor \<open>CustomSorting\<close>, whose \<open>run\<close> method is a fixed
  sequence of stages inside a temporary directory.

  Paths are Python strings. The file system is a partial map from path strings to
  entries, with each entry stored under the normal spelling of its path; the file
  operations resolve the path they are given, so that two spellings of one location (a
  doubled or trailing slash, a \<open>.\<close> or \<open>..\<close> component) reach one entry. There are no
  symbolic links and no permissions, and where the working directory lies below the root
  is not known: a path from the root and a path from the working directory never reach
  the same entry.
\<close>

type_synonym path = string

datatype entry = Dir | File string

type_synonym filesystem = "path \<Rightarrow> entry option"

text \<open>
  Exceptions are values. \<open>Exception\<close> is Python's plain \<open>Exception(message)\<close>, the
  only one the source raises by itself; the three OS errors are those of \<open>os.mkdir\<close>
  and \<open>shutil.rmtree\<close>; \<open>LibraryError\<close> stands for whatever an external library
  call raises.
\<close>

datatype exn =
    Exception string
  | FileExistsError
  | FileNotFoundError
  | NotADirectoryError
  | LibraryError string

subsection \<open>The parameters of the processor\<close>

text \<open>
  The class \<open>CustomSorting\<close> declares two files and thirteen parameters. A
  \<open>FloatParameter\<close> is a \<open>real\<close> here (the pipeline only passes these values on), an
  \<open>IntegerParameter\<close> an \<open>int\<close>. \<open>noise_overlap_threshold\<close> may be \<open>None\<close>.
\<close>

record CustomSorting =
  recording_file_in :: path
  firings_out :: path
  samplerate :: real
  mask_out_artifacts :: bool
  freq_min :: real
  freq_max :: real
  whiten :: bool
  detect_sign :: int
  adjacency_radius :: real
  clip_size :: int
  detect_threshold :: real
  detect_interval :: int
  noise_overlap_threshold :: "real option"

definition NAME :: string where
  "NAME = ''CustomSorting''"

definition VERSION :: string where
  "VERSION = ''0.1.4''"

subsection \<open>The command line, epochs and ntrodes\<close>

text \<open>
  The parsed command line. \<open>--input\<close> and \<open>--output\<close> are kept under the names
  \<open>main\<close> gives them, \<open>animal_day_path\<close> and \<open>animal_day_output_path\<close>.
\<close>

record args =
  animal_day_path :: path
  animal_day_output_path :: path
  num_jobs :: int
  force_run :: bool
  test :: bool

text \<open>
  \<open>load_ntrode\<close> and \<open>load_epoch\<close> return dictionaries with the keys \<open>name\<close>,
  \<open>path\<close>, \<open>recording_file\<close> and \<open>path\<close>, \<open>name\<close>, \<open>ntrodes\<close>.
\<close>

record ntrode =
  ntrode_name :: string
  ntrode_path :: path
  recording_file :: path

record epoch =
  epoch_path :: path
  epoch_name :: string
  ntrodes :: "ntrode list"

text \<open>
  What \<open>spike_sorting\<close> hands to \<open>CustomSorting.execute\<close>: the parameters and the
  \<open>_force_run\<close> flag.
\<close>

record job =
  params :: CustomSorting
  job_force_run :: bool


section \<open>The file system operations the program uses\<close>

subsection \<open>Resolving a path\<close>

text \<open>
  A path string is resolved the way the operating system does it: it is split at the
  slashes, and the components are walked from the root (when the string starts with a
  slash) or from the working directory. An empty component (a doubled or trailing slash)
  and \<open>.\<close> stay where they are, \<open>..\<close> goes to the parent, and each of the three needs
  the place it is met at to be a directory. Any other component goes to the entry of that
  name. So \<open>out\<close>, \<open>out/\<close>, \<open>./out\<close> and \<open>out//\<close> are one location.

  A location is the pair of a flag (from the root, or from the working directory) and
  the names walked; above the working directory the names start with \<open>..\<close>. The file
  system stores an entry under the normal spelling of its location, \<open>key\<close>. The root,
  the working directory and the directories above it always exist and are not stored.
\<close>

definition is_slash :: "char \<Rightarrow> bool" where
  "is_slash c = (c = CHR ''/'')"

text \<open>Python's \<open>p.split('/')\<close>.\<close>

fun split_slash :: "string \<Rightarrow> string list" where
  "split_slash [] = [[]]"
| "split_slash (c # cs) =
     (if is_slash c then [] # split_slash cs
      else (case split_slash cs of [] \<Rightarrow> [[c]] | x # xs \<Rightarrow> (c # x) # xs))"

fun join_slash :: "string list \<Rightarrow> string" where
  "join_slash [] = []"
| "join_slash [x] = x"
| "join_slash (x # y # ys) = x @ ''/'' @ join_slash (y # ys)"

type_synonym location = "bool \<times> string list"

definition key :: "location \<Rightarrow> path" where
  "key l = (if fst l then ''/'' else []) @ join_slash (snd l)"

definition fixed :: "location \<Rightarrow> bool" where
  "fixed l = (snd l = [] \<or> last (snd l) = ''..'')"

definition entry_at :: "filesystem \<Rightarrow> location \<Rightarrow> entry option" where
  "entry_at f l = (if fixed l then Some Dir else f (key l))"

definition up :: "location \<Rightarrow> location" where
  "up l =
     (if fixed l then (if fst l then l else (False, snd l @ [''..'']))
      else (fst l, butlast (snd l)))"

definition child :: "location \<Rightarrow> string \<Rightarrow> location" where
  "child l c = (fst l, snd l @ [c])"

definition is_file :: "entry option \<Rightarrow> bool" where
  "is_file e = (case e of Some (File _) \<Rightarrow> True | _ \<Rightarrow> False)"

text \<open>
  The error for a place that is not there: \<open>NotADirectoryError\<close> when a file lies on the
  way to it, \<open>FileNotFoundError\<close> otherwise.
\<close>

definition missing_error :: "filesystem \<Rightarrow> location \<Rightarrow> exn" where
  "missing_error f l =
     (if list_ex (\<lambda>n. is_file (entry_at f (fst l, take n (snd l)))) [0..<length (snd l)]
      then NotADirectoryError else FileNotFoundError)"

fun walk :: "filesystem \<Rightarrow> location \<Rightarrow> string list \<Rightarrow> exn + location" where
  "walk f l [] = Inr l"
| "walk f l (c # cs) =
     (if c = [] \<or> c = ''.'' \<or> c = ''..''
      then (case entry_at f l of
              None \<Rightarrow> Inl (missing_error f l)
            | Some (File _) \<Rightarrow> Inl NotADirectoryError
            | Some Dir \<Rightarrow> walk f (if c = ''..'' then up l else l) cs)
      else walk f (child l c) cs)"

definition resolve :: "filesystem \<Rightarrow> path \<Rightarrow> exn + location" where
  "resolve f p =
     (if p = [] then Inl FileNotFoundError
      else walk f (is_slash (hd p), []) (split_slash p))"

subsection \<open>The operations\<close>

text \<open>\<open>os.path.exists\<close>: false whenever the path cannot be resolved.\<close>

definition exists :: "path \<Rightarrow> filesystem \<Rightarrow> bool" where
  "exists p f = (case resolve f p of Inl _ \<Rightarrow> False | Inr l \<Rightarrow> entry_at f l \<noteq> None)"

definition isdir :: "path \<Rightarrow> filesystem \<Rightarrow> bool" where
  "isdir p f = (case resolve f p of Inl _ \<Rightarrow> False | Inr l \<Rightarrow> entry_at f l = Some Dir)"

definition rstrip_slash :: "path \<Rightarrow> path" where
  "rstrip_slash p = rev (dropWhile is_slash (rev p))"

text \<open>
  \<open>os.mkdir\<close>: the path may end in slashes. It fails when the path is empty, when the
  path cannot be resolved, when something is there already, when the parent is missing
  and when the parent is a file; otherwise it adds one empty directory. \<open>make_dir\<close>
  also returns the normal spelling of the directory made.
\<close>

definition make_dir :: "path \<Rightarrow> filesystem \<Rightarrow> exn + path \<times> filesystem" where
  "make_dir p f =
     (if p = [] then Inl FileNotFoundError
      else if rstrip_slash p = [] then Inl FileExistsError
      else (case resolve f (rstrip_slash p) of
              Inl e \<Rightarrow> Inl e
            | Inr l \<Rightarrow>
                if entry_at f l \<noteq> None then Inl FileExistsError
                else (case entry_at f (up l) of
                        None \<Rightarrow> Inl (missing_error f (up l))
                      | Some (File _) \<Rightarrow> Inl NotADirectoryError
                      | Some Dir \<Rightarrow> Inr (key l, f(key l \<mapsto> Dir)))))"

definition os_mkdir :: "path \<Rightarrow> filesystem \<Rightarrow> exn + filesystem" where
  "os_mkdir p f = (case make_dir p f of Inl e \<Rightarrow> Inl e | Inr (k, f') \<Rightarrow> Inr f')"

definition mkdir2 :: "path \<Rightarrow> filesystem \<Rightarrow> exn + filesystem" where
  "mkdir2 p f = (if \<not> exists p f then os_mkdir p f else Inr f)"

text \<open>
  A stored path is inside the directory stored as \<open>d\<close> when it is \<open>d\<close> followed by a
  slash and a rest; \<open>in_tree d\<close> holds of \<open>d\<close> itself as well.
\<close>

definition below :: "path \<Rightarrow> path \<Rightarrow> bool" where
  "below d p = (length d < length p \<and> take (Suc (length d)) p = d @ ''/'')"

definition in_tree :: "path \<Rightarrow> path \<Rightarrow> bool" where
  "in_tree d p = (p = d \<or> below d p)"

text \<open>
  \<open>tempfile.mkdtemp\<close> draws random names and makes the first one that does not
  exist yet; the paths it would try are the list \<open>cands\<close>. When every name is taken it
  raises \<open>FileExistsError\<close>; any other error of \<open>os.mkdir\<close> is passed on. It returns
  the path of the directory it made, in its normal spelling (\<open>tempfile\<close> builds its
  paths from an absolute directory and a plain name, so they are spelled that way).
\<close>

fun mkdtemp :: "path list \<Rightarrow> filesystem \<Rightarrow> exn + path \<times> filesystem" where
  "mkdtemp [] f = Inl FileExistsError"
| "mkdtemp (c # cs) f =
     (case make_dir c f of
        Inr (k, f') \<Rightarrow> Inr (k, f')
      | Inl FileExistsError \<Rightarrow> mkdtemp cs f
      | Inl e \<Rightarrow> Inl e)"

text \<open>
  \<open>shutil.rmtree\<close>: removes the directory and everything inside it; raises when the
  path cannot be resolved, does not exist, or is a file.
\<close>

definition rmtree :: "path \<Rightarrow> filesystem \<Rightarrow> exn + filesystem" where
  "rmtree d f =
     (case resolve f d of
        Inl e \<Rightarrow> Inl e
      | Inr l \<Rightarrow>
          (case entry_at f l of
             None \<Rightarrow> Inl (missing_error f l)
           | Some (File _) \<Rightarrow> Inl NotADirectoryError
           | Some Dir \<Rightarrow> Inr (\<lambda>p. if in_tree (key l) p then None else f p)))"

section \<open>The external libraries\<close>

text \<open>
  The stages themselves are calls into libraries that are not part of the program:
  \<open>ShellScript\<close>, \<open>sf.mdaio.readmda\<close>, \<open>se.NumpyRecordingExtractor\<close>,
  \<open>st.preprocessing\<close>, \<open>ml_ms4alg.mountainsort4\<close> and
  \<open>sf.SFMdaSortingExtractor.write_sorting\<close>. They are parameters of the model, and
  every theorem holds for any choice of them. \<open>'x\<close> is the type of a loaded array,
  \<open>'r\<close> of a recording extractor, \<open>'s\<close> of a sorting. Each call may raise; the shell
  script and \<open>write_sorting\<close> may change the file system. A call's result depends on
  its arguments and, where it touches files, on the file system, and on nothing else.

  \<open>shell_run\<close> is \<open>script.start()\<close> followed by \<open>script.wait()\<close>, returning the exit
  status; \<open>shape0\<close> is \<open>X.shape[0]\<close>.
\<close>

record ('x, 'r, 's) libraries =
  shell_run :: "string \<Rightarrow> filesystem \<Rightarrow> (exn + int) \<times> filesystem"
  readmda :: "path \<Rightarrow> filesystem \<Rightarrow> exn + 'x"
  shape0 :: "'x \<Rightarrow> nat"
  NumpyRecordingExtractor :: "'x \<Rightarrow> real \<Rightarrow> real list list \<Rightarrow> exn + 'r"
  bandpass_filter :: "'r \<Rightarrow> real \<Rightarrow> real \<Rightarrow> exn + 'r"
  whiten_recording :: "'r \<Rightarrow> exn + 'r"
  mountainsort4 :: "'r \<Rightarrow> int \<Rightarrow> real \<Rightarrow> int \<Rightarrow> real \<Rightarrow> int \<Rightarrow> nat \<Rightarrow> exn + 's"
  write_sorting :: "'s \<Rightarrow> path \<Rightarrow> filesystem \<Rightarrow> (exn + unit) \<times> filesystem"

text \<open>
  The calls a run makes, in order, with their arguments. The log is what an instrumented
  run would record at the entry of each call; it has no influence on the run.
\<close>

datatype ('x, 'r, 's) event =
    Mkdtemp path
  | Shell string
  | Readmda path
  | NewRecording 'x real "real list list"
  | Bandpass 'r real real
  | Whiten 'r
  | Mountainsort4 'r int real int real int nat
  | WriteSorting 's path
  | Rmtree path

record ('x, 'r, 's) world =
  fs :: filesystem
  trace :: "('x, 'r, 's) event list"

definition log_call :: "('x, 'r, 's) event \<Rightarrow> ('x, 'r, 's) world \<Rightarrow> ('x, 'r, 's) world" where
  "log_call ev w = w\<lparr>trace := trace w @ [ev]\<rparr>"

text \<open>
  A statement that may raise and may change the world is a function from the world to a
  result and a world. \<open>seq\<close> is the semicolon: the second statement runs only when the
  first one returns.
\<close>

type_synonym ('a, 'w) stmt = "'w \<Rightarrow> (exn + 'a) \<times> 'w"

definition ret :: "'a \<Rightarrow> ('a, 'w) stmt" where
  "ret x w = (Inr x, w)"

definition throw :: "exn \<Rightarrow> ('a, 'w) stmt" where
  "throw e w = (Inl e, w)"

definition seq :: "('a, 'w) stmt \<Rightarrow> ('a \<Rightarrow> ('b, 'w) stmt) \<Rightarrow> ('b, 'w) stmt" where
  "seq m k w = (case m w of (Inl e, w') \<Rightarrow> (Inl e, w') | (Inr x, w') \<Rightarrow> k x w')"

definition pure_call :: "('x, 'r, 's) event \<Rightarrow> exn + 'a \<Rightarrow> ('a, ('x, 'r, 's) world) stmt" where
  "pure_call ev r w = (r, log_call ev w)"

definition fs_call ::
  "('x, 'r, 's) event \<Rightarrow> (filesystem \<Rightarrow> (exn + 'a) \<times> filesystem) \<Rightarrow> ('a, ('x, 'r, 's) world) stmt" where
  "fs_call ev g w = (case g (fs w) of (r, f') \<Rightarrow> (r, (log_call ev w)\<lparr>fs := f'\<rparr>))"

section \<open>The temporary directory\<close>

text \<open>
  \<open>with TemporaryDirectory() as tmpdir: body\<close>. \<open>__enter__\<close> makes the directory and
  returns its path; \<open>__exit__\<close> runs when the body returns and when it raises, and
  calls \<open>shutil.rmtree\<close>. \<open>__exit__\<close> returns nothing, so an exception of the body is
  passed on; an exception of \<open>rmtree\<close> replaces it.
\<close>

definition TemporaryDirectory_enter ::
  "path list \<Rightarrow> (path, ('x, 'r, 's) world) stmt" where
  "TemporaryDirectory_enter cands w =
     (case mkdtemp cands (fs w) of
        Inl e \<Rightarrow> (Inl e, w)
      | Inr (d, f') \<Rightarrow> (Inr d, (log_call (Mkdtemp d) w)\<lparr>fs := f'\<rparr>))"

definition TemporaryDirectory_exit ::
  "path \<Rightarrow> (unit, ('x, 'r, 's) world) stmt" where
  "TemporaryDirectory_exit d w =
     (case rmtree d (fs w) of
        Inl e \<Rightarrow> (Inl e, log_call (Rmtree d) w)
      | Inr f' \<Rightarrow> (Inr (), (log_call (Rmtree d) w)\<lparr>fs := f'\<rparr>))"

definition with_TemporaryDirectory ::
  "path list \<Rightarrow> (path \<Rightarrow> ('a, ('x, 'r, 's) world) stmt) \<Rightarrow> ('a, ('x, 'r, 's) world) stmt" where
  "with_TemporaryDirectory cands body w =
     (case TemporaryDirectory_enter cands w of
        (Inl e, w1) \<Rightarrow> (Inl e, w1)
      | (Inr tmpdir, w1) \<Rightarrow>
          (case body tmpdir w1 of
             (r, w2) \<Rightarrow>
               (case TemporaryDirectory_exit tmpdir w2 of
                  (Inl e, w3) \<Rightarrow> (Inl e, w3)
                | (Inr _, w3) \<Rightarrow> (r, w3))))"

section \<open>The processor\<close>

text \<open>
  The script text of \<open>_mask_out_artifacts\<close>, the two paths put where the format string
  has its two holes.
\<close>

definition mask_script :: "path \<Rightarrow> path \<Rightarrow> string" where
  "mask_script timeseries_in timeseries_out =
     [CHR 0x0A] @ ''    #!/bin/bash'' @ [CHR 0x0A]
     @ ''    mp-run-process ms3.mask_out_artifacts --timeseries '' @ timeseries_in
     @ '' --timeserious_out '' @ timeseries_out @ [CHR 0x0A] @ ''    ''"

text \<open>The function \<open>_mask_out_artifacts\<close> of the source.\<close>

definition run_mask_out_artifacts ::
  "('x, 'r, 's) libraries \<Rightarrow> path \<Rightarrow> path \<Rightarrow> (unit, ('x, 'r, 's) world) stmt" where
  "run_mask_out_artifacts L timeseries_in timeseries_out =
     seq (fs_call (Shell (mask_script timeseries_in timeseries_out))
            (shell_run L (mask_script timeseries_in timeseries_out)))
       (\<lambda>retcode.
          if retcode \<noteq> 0
          then throw (Exception ''problem running ms3.mask_out_artifacts'')
          else ret ())"

text \<open>
  The body of the \<open>with\<close> block of \<open>CustomSorting.run\<close>: choose the file to read,
  read it, build the recording at 30000 Hz with an all-zero geometry, filter, whiten if
  asked, sort with two workers, write the sorting.
\<close>

definition choose_rec_fname ::
  "('x, 'r, 's) libraries \<Rightarrow> CustomSorting \<Rightarrow> path \<Rightarrow> (path, ('x, 'r, 's) world) stmt" where
  "choose_rec_fname L c tmpdir =
     (if mask_out_artifacts c
      then seq (run_mask_out_artifacts L (recording_file_in c) (tmpdir @ ''/raw.mda''))
             (\<lambda>_. ret (tmpdir @ ''/raw.mda''))
      else ret (recording_file_in c))"

definition run_stages ::
  "('x, 'r, 's) libraries \<Rightarrow> CustomSorting \<Rightarrow> path \<Rightarrow> (unit, ('x, 'r, 's) world) stmt" where
  "run_stages L c tmpdir =
     seq (choose_rec_fname L c tmpdir) (\<lambda>rec_fname.
     seq (\<lambda>w. pure_call (Readmda rec_fname) (readmda L rec_fname (fs w)) w) (\<lambda>X.
     seq (pure_call (NewRecording X 30000 (replicate (shape0 L X) [0, 0]))
            (NumpyRecordingExtractor L X 30000 (replicate (shape0 L X) [0, 0]))) (\<lambda>recording.
     seq (pure_call (Bandpass recording (freq_min c) (freq_max c))
            (bandpass_filter L recording (freq_min c) (freq_max c))) (\<lambda>filtered.
     seq (if whiten c
          then pure_call (Whiten filtered) (whiten_recording L filtered)
          else ret filtered) (\<lambda>whitened.
     seq (pure_call
            (Mountainsort4 whitened (detect_sign c) (adjacency_radius c) (clip_size c)
               (detect_threshold c) (detect_interval c) 2)
            (mountainsort4 L whitened (detect_sign c) (adjacency_radius c) (clip_size c)
               (detect_threshold c) (detect_interval c) 2)) (\<lambda>sorting.
     fs_call (WriteSorting sorting (firings_out c))
       (write_sorting L sorting (firings_out c))))))))"

definition run ::
  "('x, 'r, 's) libraries \<Rightarrow> path list \<Rightarrow> CustomSorting \<Rightarrow> (unit, ('x, 'r, 's) world) stmt" where
  "run L cands c = with_TemporaryDirectory cands (run_stages L c)"

text \<open>A run that starts on the file system \<open>f\<close> with an empty log.\<close>

definition run_on ::
  "('x, 'r, 's) libraries \<Rightarrow> path list \<Rightarrow> CustomSorting \<Rightarrow> filesystem
     \<Rightarrow> (exn + unit) \<times> ('x, 'r, 's) world" where
  "run_on L cands c f = run L cands c \<lparr>fs = f, trace = []\<rparr>"

section \<open>Submitting the jobs\<close>

text \<open>
  \<open>spike_sorting\<close> fixes every parameter but the two files; the four parameters it does
  not mention take the defaults of their declarations.
\<close>

definition spike_sorting :: "path \<Rightarrow> path \<Rightarrow> args \<Rightarrow> job" where
  "spike_sorting recording_file_in' firings_out' a =
     \<lparr>params =
        \<lparr>recording_file_in = recording_file_in',
         firings_out = firings_out',
         samplerate = 30000,
         mask_out_artifacts = True,
         freq_min = 300,
         freq_max = 6000,
         whiten = True,
         detect_sign = - 1,
         adjacency_radius = 50,
         clip_size = 50,
         detect_threshold = 3,
         detect_interval = 10,
         noise_overlap_threshold = Some (15 / 100)\<rparr>,
      job_force_run = force_run a\<rparr>"

text \<open>
  The loops of \<open>main\<close>. The state is the file system and the jobs submitted so far,
  each with the file system as it was when \<open>spike_sorting\<close> was called. An exception of
  \<open>os.mkdir\<close> ends \<open>main\<close>.
\<close>

record batch =
  bfs :: filesystem
  submitted :: "(job \<times> filesystem) list"

fun sort_ntrodes :: "args \<Rightarrow> epoch \<Rightarrow> ntrode list \<Rightarrow> (unit, batch) stmt" where
  "sort_ntrodes a ep [] b = (Inr (), b)"
| "sort_ntrodes a ep (nt # nts) b =
     (case mkdir2 (animal_day_output_path a @ ''/'' @ epoch_name ep @ ''/'' @ ntrode_name nt) (bfs b) of
        Inl e \<Rightarrow> (Inl e, b)
      | Inr f \<Rightarrow>
          sort_ntrodes a ep nts
            \<lparr>bfs = f,
             submitted = submitted b @
               [(spike_sorting (recording_file nt)
                   (animal_day_output_path a @ ''/'' @ epoch_name ep @ ''/'' @ ntrode_name nt
                      @ ''/firings.mda'') a, f)]\<rparr>)"

fun sort_epochs :: "args \<Rightarrow> epoch list \<Rightarrow> (unit, batch) stmt" where
  "sort_epochs a [] b = (Inr (), b)"
| "sort_epochs a (ep # eps) b =
     (case mkdir2 (animal_day_output_path a @ ''/'' @ epoch_name ep) (bfs b) of
        Inl e \<Rightarrow> (Inl e, b)
      | Inr f \<Rightarrow>
          (case sort_ntrodes a ep (ntrodes ep) (b\<lparr>bfs := f\<rparr>) of
             (Inl e, b') \<Rightarrow> (Inl e, b')
           | (Inr _, b') \<Rightarrow> sort_epochs a eps b'))"

definition main_sorting :: "args \<Rightarrow> epoch list \<Rightarrow> filesystem \<Rightarrow> (exn + unit) \<times> batch" where
  "main_sorting a epochs f =
     (case mkdir2 (animal_day_output_path a) f of
        Inl e \<Rightarrow> (Inl e, \<lparr>bfs = f, submitted = []\<rparr>)
      | Inr f' \<Rightarrow> sort_epochs a epochs \<lparr>bfs = f', submitted = []\<rparr>)"

section \<open>An example world\<close>

text \<open>
  Libraries to run the model on: every call returns a description of what it was asked
  to do. The shell script ends with the given exit status and, when that is 0, leaves a
  masked copy in the temporary directory of the example; \<open>readmda\<close> needs a file at the
  path; \<open>write_sorting\<close> writes a file.
\<close>

datatype recording =
    Numpy "int list list" real "real list list"
  | Filtered recording real real
  | Whitened recording

datatype sorting = Sorted recording int real int real int nat

definition example_libraries :: "int \<Rightarrow> (int list list, recording, sorting) libraries" where
  "example_libraries status =
     \<lparr>shell_run = (\<lambda>script f.
        (Inr status, if status = 0 then f(''/tmp/w0/raw.mda'' \<mapsto> File ''masked'') else f)),
      readmda = (\<lambda>p f.
        case f p of Some (File _) \<Rightarrow> Inr [[1, 2, 3], [4, 5, 6]] | _ \<Rightarrow> Inl (LibraryError ''readmda'')),
      shape0 = length,
      NumpyRecordingExtractor = (\<lambda>X sr geom. Inr (Numpy X sr geom)),
      bandpass_filter = (\<lambda>r lo hi. Inr (Filtered r lo hi)),
      whiten_recording = (\<lambda>r. Inr (Whitened r)),
      mountainsort4 = (\<lambda>r sign radius clip thresh interval workers.
        Inr (Sorted r sign radius clip thresh interval workers)),
      write_sorting = (\<lambda>s p f. (Inr (), f(p \<mapsto> File ''firings'')))\<rparr>"

definition example_fs :: filesystem where
  "example_fs = [''/tmp'' \<mapsto> Dir, ''in.mda'' \<mapsto> File ''raw'']"

definition example_args :: args where
  "example_args =
     \<lparr>animal_day_path = ''day'', animal_day_output_path = ''out'', num_jobs = 1,
      force_run = False, test = False\<rparr>"

definition example_params :: CustomSorting where
  "example_params = params (spike_sorting ''in.mda'' ''firings.mda'' example_args)"

definition example_epochs :: "epoch list" where
  "example_epochs =
     [\<lparr>epoch_path = ''day/e1.mda'', epoch_name = ''e1'',
       ntrodes =
         [\<lparr>ntrode_name = ''n1'', ntrode_path = ''day/e1.mda/n1.mda'', recording_file = ''sha1://a''\<rparr>,
          \<lparr>ntrode_name = ''n2'', ntrode_path = ''day/e1.mda/n2.mda'', recording_file = ''sha1://b''\<rparr>]\<rparr>]"

definition example_world :: "(int list list, recording, sorting) world" where
  "example_world = \<lparr>fs = example_fs, trace = []\<rparr>"

definition example_unfiltered :: CustomSorting where
  "example_unfiltered = example_params\<lparr>freq_min := 0, freq_max := 0\<rparr>"

definition example_unmasked :: CustomSorting where
  "example_unmasked = example_params\<lparr>mask_out_artifacts := False\<rparr>"

definition example_recording :: recording where
  "example_recording = Numpy [[1, 2, 3], [4, 5, 6]] 30000 [[0, 0], [0, 0]]"

text \<open>
  Libraries whose masking script replaces the temporary directory of the example by a
  file, libraries whose script removes it, and libraries whose sorter raises.
\<close>

definition clobbering_libraries :: "(int list list, recording, sorting) libraries" where
  "clobbering_libraries =
     (example_libraries 0)\<lparr>shell_run := (\<lambda>script f. (Inr 0, f(''/tmp/w0'' \<mapsto> File ''junk'')))\<rparr>"

definition removing_libraries :: "(int list list, recording, sorting) libraries" where
  "removing_libraries =
     (example_libraries 0)\<lparr>shell_run := (\<lambda>script f. (Inr 0, f(''/tmp/w0'' := None)))\<rparr>"

definition sorter_failing_libraries :: "(int list list, recording, sorting) libraries" where
  "sorter_failing_libraries =
     (example_libraries 0)\<lparr>mountainsort4 :=
        (\<lambda>r sign radius clip thresh interval workers. Inl (LibraryError ''mountainsort4''))\<rparr>"

text \<open>
  The output directory given with a trailing slash, and a file system on which an
  earlier run has made every output directory already.
\<close>

definition example_args_slash :: args where
  "example_args_slash = example_args\<lparr>animal_day_output_path := ''out/''\<rparr>"

definition example_fs_sorted :: filesystem where
  "example_fs_sorted =
     example_fs(''out'' \<mapsto> Dir, ''out/e1'' \<mapsto> Dir, ''out/e1/n1'' \<mapsto> Dir, ''out/e1/n2'' \<mapsto> Dir,
       ''out/e1/n1/firings.mda'' \<mapsto> File ''firings'')"

section \<open>What the output of \<open>main\<close> is compared with\<close>







section \<open>Normal locations\<close>

text \<open>
  An ordinary name: not empty, not \<open>.\<close> or \<open>..\<close>, no slash. A location is normal when its
  names are ordinary, but for leading \<open>..\<close> above the working directory.
\<close>

definition plain :: "string \<Rightarrow> bool" where
  "plain c = (c \<noteq> [] \<and> c \<noteq> ''.'' \<and> c \<noteq> ''..'' \<and> \<not> list_ex is_slash c)"

definition normal :: "location \<Rightarrow> bool" where
  "normal l =
     (if fst l then list_all plain (snd l)
      else list_all plain (dropWhile (\<lambda>c. c = ''..'') (snd l)))"

section \<open>Basic facts\<close>

lemmas stmt_defs = ret_def throw_def seq_def pure_call_def fs_call_def log_call_def

lemmas tmp_defs =
  TemporaryDirectory_enter_def TemporaryDirectory_exit_def with_TemporaryDirectory_def

lemmas run_defs =
  run_on_def run_def run_stages_def choose_rec_fname_def run_mask_out_artifacts_def

lemmas example_defs =
  example_libraries_def example_fs_def example_args_def example_params_def spike_sorting_def
  example_world_def example_unfiltered_def example_unmasked_def example_recording_def
  clobbering_libraries_def removing_libraries_def sorter_failing_libraries_def
  example_args_slash_def example_fs_sorted_def

lemmas fs_defs =
  make_dir_def os_mkdir_def mkdir2_def exists_def isdir_def resolve_def entry_at_def fixed_def
  up_def child_def key_def rstrip_slash_def missing_error_def is_file_def is_slash_def
  rmtree_def in_tree_def below_def

lemmas eval_defs = run_defs tmp_defs stmt_defs example_defs fs_defs

lemma below_raw: "below d (d @ ''/raw.mda'')"
  by (simp add: below_def)

subsection \<open>Splitting and walking\<close>

lemma split_slash_not_Nil: "split_slash p \<noteq> []"
  by (induction p) (auto split: list.splits)

lemma split_slash_no_slash: "c \<in> set (split_slash p) \<Longrightarrow> \<not> list_ex is_slash c"
  by (induction p arbitrary: c) (auto split: list.splits if_splits)

lemma split_slash_append: "split_slash (a @ CHR ''/'' # b) = split_slash a @ split_slash b"
  by (induction a) (auto simp: is_slash_def split_slash_not_Nil split: list.splits)

lemma split_slash_single: "\<not> list_ex is_slash c \<Longrightarrow> split_slash c = [c]"
  by (induction c) auto

lemma split_slash_join:
  "cs \<noteq> [] \<Longrightarrow> \<forall>c \<in> set cs. \<not> list_ex is_slash c \<Longrightarrow> split_slash (join_slash cs) = cs"
proof (induction cs rule: join_slash.induct)
  case 1
  then show ?case by simp
next
  case (2 x)
  then show ?case by (simp add: split_slash_single)
next
  case (3 x y ys)
  then show ?case by (simp add: split_slash_append split_slash_single)
qed


lemma walk_plain: "list_all plain cs \<Longrightarrow> walk f l cs = Inr (fst l, snd l @ cs)"
  by (induction cs arbitrary: l) (auto simp: plain_def child_def)

lemma walk_dotdot:
  "walk f (False, replicate k ''..'') (replicate n ''..'' @ cs) =
   walk f (False, replicate (k + n) ''..'') cs"
proof (induction n arbitrary: k)
  case 0
  then show ?case by simp
next
  case (Suc n)
  have fx: "fixed (False, replicate k ''..'')"
    by (cases k) (auto simp: fixed_def)
  have "walk f (False, replicate k ''..'') (replicate (Suc n) ''..'' @ cs) =
        walk f (False, replicate (Suc k) ''..'') (replicate n ''..'' @ cs)"
    using fx by (simp add: entry_at_def up_def replicate_append_same)
  then show ?case using Suc.IH [of "Suc k"] by simp
qed


lemma normal_iff:
  "normal l \<longleftrightarrow>
     (\<exists>n names. snd l = replicate n ''..'' @ names \<and> list_all plain names \<and> (fst l \<longrightarrow> n = 0))"
proof
  assume n: "normal l"
  show "\<exists>n names. snd l = replicate n ''..'' @ names \<and> list_all plain names \<and> (fst l \<longrightarrow> n = 0)"
  proof (cases "fst l")
    case True
    with n have "snd l = replicate 0 ''..'' @ snd l \<and> list_all plain (snd l)"
      by (simp add: normal_def)
    then show ?thesis by blast
  next
    case False
    let ?P = "\<lambda>c. c = ''..''"
    have "takeWhile ?P (snd l) = replicate (length (takeWhile ?P (snd l))) ''..''"
      by (rule replicate_length_same [symmetric]) (auto dest: set_takeWhileD)
    then have "snd l = replicate (length (takeWhile ?P (snd l))) ''..'' @ dropWhile ?P (snd l)"
      by (metis takeWhile_dropWhile_id)
    moreover from n False have "list_all plain (dropWhile ?P (snd l))"
      by (simp add: normal_def)
    ultimately show ?thesis using False by blast
  qed
next
  assume "\<exists>n names. snd l = replicate n ''..'' @ names \<and> list_all plain names \<and> (fst l \<longrightarrow> n = 0)"
  then obtain n names where
    s: "snd l = replicate n ''..'' @ names" and p: "list_all plain names" and a: "fst l \<longrightarrow> n = 0"
    by blast
  have d: "dropWhile (\<lambda>c. c = ''..'') names = names"
    using p by (cases names) (auto simp: plain_def)
  show "normal l"
    using s p a d by (auto simp: normal_def dropWhile_append)
qed

lemma normal_child: "normal l \<Longrightarrow> plain c \<Longrightarrow> normal (child l c)"
proof -
  assume "normal l" "plain c"
  then obtain n names where
    "snd l = replicate n ''..'' @ names" "list_all plain names" "fst l \<longrightarrow> n = 0"
    by (auto simp: normal_iff)
  then have "snd (child l c) = replicate n ''..'' @ (names @ [c]) \<and> list_all plain (names @ [c])
      \<and> (fst (child l c) \<longrightarrow> n = 0)"
    using \<open>plain c\<close> by (simp add: child_def)
  then show ?thesis unfolding normal_iff by blast
qed

lemma normal_fixed:
  assumes "normal l" "fixed l"
  shows "\<exists>n. snd l = replicate n ''..'' \<and> (fst l \<longrightarrow> n = 0)"
proof -
  from assms(1) obtain n names where
    s: "snd l = replicate n ''..'' @ names" and p: "list_all plain names" and a: "fst l \<longrightarrow> n = 0"
    by (auto simp: normal_iff)
  have "names = []"
  proof (rule ccontr)
    assume ne: "names \<noteq> []"
    then have "last (snd l) = last names" using s by simp
    moreover have "plain (last names)" using p ne by (simp add: list_all_iff)
    ultimately show False using assms(2) s ne by (auto simp: fixed_def plain_def)
  qed
  with s a show ?thesis by auto
qed

lemma normal_up: "normal l \<Longrightarrow> normal (up l)"
proof (cases "fixed l")
  case True
  assume n: "normal l"
  from normal_fixed [OF n True] obtain k where k: "snd l = replicate k ''..''" "fst l \<longrightarrow> k = 0"
    by blast
  show ?thesis
  proof (cases "fst l")
    case True
    with \<open>fixed l\<close> n show ?thesis by (simp add: up_def)
  next
    case False
    have "snd (up l) = replicate (Suc k) ''..'' @ [] \<and> list_all plain [] \<and> (fst (up l) \<longrightarrow> Suc k = 0)"
      using False \<open>fixed l\<close> k by (simp add: up_def replicate_append_same)
    then show ?thesis unfolding normal_iff by blast
  qed
next
  case False
  assume n: "normal l"
  then obtain k names where
    s: "snd l = replicate k ''..'' @ names" and p: "list_all plain names" and a: "fst l \<longrightarrow> k = 0"
    by (auto simp: normal_iff)
  have ne: "names \<noteq> []"
  proof
    assume "names = []"
    with s have "snd l = replicate k ''..''" by simp
    then have "fixed l" by (cases k) (auto simp: fixed_def)
    with False show False by simp
  qed
  have "snd (up l) = replicate k ''..'' @ butlast names \<and> list_all plain (butlast names)
      \<and> (fst (up l) \<longrightarrow> k = 0)"
    using False s p a ne by (auto simp: up_def butlast_append list_all_iff dest: in_set_butlastD)
  then show ?thesis unfolding normal_iff by blast
qed

lemma walk_normal:
  "walk f l cs = Inr l' \<Longrightarrow> normal l \<Longrightarrow> \<forall>c \<in> set cs. \<not> list_ex is_slash c \<Longrightarrow> normal l'"
proof (induction cs arbitrary: l)
  case Nil
  then show ?case by simp
next
  case (Cons c cs)
  show ?case
  proof (cases "c = [] \<or> c = ''.'' \<or> c = ''..''")
    case True
    with Cons.prems(1) have "walk f (if c = ''..'' then up l else l) cs = Inr l'"
      by (auto split: option.splits entry.splits)
    moreover have "normal (if c = ''..'' then up l else l)"
      using Cons.prems(2) by (simp add: normal_up)
    ultimately show ?thesis using Cons.IH Cons.prems(3) by simp
  next
    case False
    with Cons.prems(1) have "walk f (child l c) cs = Inr l'" by simp
    moreover have "plain c" using False Cons.prems(3) by (simp add: plain_def)
    then have "normal (child l c)" using Cons.prems(2) by (rule normal_child [rotated])
    ultimately show ?thesis using Cons.IH Cons.prems(3) by simp
  qed
qed

lemma resolve_normal:
  assumes "resolve f p = Inr l"
  shows "normal l"
proof -
  from assms have w: "walk f (is_slash (hd p), []) (split_slash p) = Inr l"
    by (simp add: resolve_def split: if_splits)
  have "normal (is_slash (hd p), [])"
    by (simp add: normal_def)
  with w show ?thesis
    by (rule walk_normal) (simp add: split_slash_no_slash)
qed


lemma join_slash_hd: "c \<noteq> [] \<Longrightarrow> join_slash (c # cs) \<noteq> [] \<and> hd (join_slash (c # cs)) = hd c"
  by (cases cs) auto

lemma resolve_key:
  assumes "normal l" and "\<not> fixed l"
  shows "resolve g (key l) = Inr l"
proof -
  from assms(1) obtain n names where
    s: "snd l = replicate n ''..'' @ names" and p: "list_all plain names" and a: "fst l \<longrightarrow> n = 0"
    by (auto simp: normal_iff)
  have ne: "names \<noteq> []"
  proof
    assume "names = []"
    with s have "snd l = replicate n ''..''" by simp
    then have "fixed l" by (cases n) (auto simp: fixed_def)
    with assms(2) show False by simp
  qed
  have noslash: "\<forall>c \<in> set (snd l). \<not> list_ex is_slash c"
    using s p by (auto simp: list_all_iff plain_def is_slash_def)
  have sne: "snd l \<noteq> []" using s ne by simp
  have split: "split_slash (join_slash (snd l)) = snd l"
    using sne noslash by (rule split_slash_join)
  show ?thesis
  proof (cases "fst l")
    case True
    with a s have sl: "snd l = names" by simp
    have k: "key l = CHR ''/'' # join_slash names"
      using True sl by (simp add: key_def)
    have "walk g (True, []) ([] # names) = walk g (True, []) names"
      by (simp add: entry_at_def fixed_def)
    also have "\<dots> = Inr (True, names)"
      using p by (simp add: walk_plain)
    finally show ?thesis
      using k split sl True by (simp add: resolve_def is_slash_def prod_eq_iff)
  next
    case False
    obtain c cs where cs: "snd l = c # cs" using sne by (cases "snd l") auto
    have "c \<noteq> [] \<and> \<not> is_slash (hd c)"
    proof (cases n)
      case 0
      with s cs have "c = hd names" using ne by (cases names) auto
      moreover have "plain (hd names)" using p ne by (cases names) auto
      ultimately have "plain c" by simp
      then show ?thesis by (cases c) (auto simp: plain_def)
    next
      case (Suc m)
      with s cs have "c = ''..''" by simp
      then show ?thesis by (simp add: is_slash_def)
    qed
    then have k: "key l \<noteq> [] \<and> \<not> is_slash (hd (key l))"
      using False cs join_slash_hd [of c cs] by (simp add: key_def)
    have "walk g (False, []) (replicate n ''..'' @ names) = walk g (False, replicate n ''..'') names"
      using walk_dotdot [of g 0 n names] by simp
    also have "\<dots> = Inr (False, replicate n ''..'' @ names)"
      using p by (simp add: walk_plain)
    finally show ?thesis
      using k split s False by (simp add: resolve_def key_def prod_eq_iff)
  qed
qed

lemma make_dir_result:
  assumes "make_dir p f = Inr (k, f')"
  shows "\<exists>l. normal l \<and> \<not> fixed l \<and> k = key l \<and> f k = None \<and> f' = f(k \<mapsto> Dir)
           \<and> resolve f (rstrip_slash p) = Inr l \<and> entry_at f (up l) = Some Dir"
proof -
  from assms obtain l where
    r: "resolve f (rstrip_slash p) = Inr l" and e: "entry_at f l = None"
    and u: "entry_at f (up l) = Some Dir"
    and k: "k = key l" "f' = f(key l \<mapsto> Dir)"
    by (auto simp: make_dir_def split: if_splits sum.splits option.splits entry.splits)
  from e have "\<not> fixed l" "f (key l) = None"
    by (auto simp: entry_at_def split: if_splits)
  with r k u resolve_normal [OF r] show ?thesis by blast
qed

lemma mkdtemp_result:
  "mkdtemp cands f = Inr (d, f1) \<Longrightarrow>
     \<exists>l. normal l \<and> \<not> fixed l \<and> d = key l \<and> f d = None \<and> f1 = f(d \<mapsto> Dir)"
proof (induction cands)
  case Nil
  then show ?case by simp
next
  case (Cons c cs)
  show ?case
  proof (cases "make_dir c f")
    case (Inl e)
    with Cons show ?thesis by (cases e) auto
  next
    case (Inr kf)
    with Cons.prems have "make_dir c f = Inr (d, f1)" by (cases kf) auto
    from make_dir_result [OF this] show ?thesis by blast
  qed
qed

lemma rmtree_key:
  assumes "normal l" and "\<not> fixed l"
  shows "rmtree (key l) g =
     (case g (key l) of
        None \<Rightarrow> Inl (missing_error g l)
      | Some Dir \<Rightarrow> Inr (\<lambda>p. if in_tree (key l) p then None else g p)
      | Some (File x) \<Rightarrow> Inl NotADirectoryError)"
  using assms by (simp add: rmtree_def resolve_key entry_at_def)

lemma rmtree_mkdtemp:
  assumes "mkdtemp cands f = Inr (d, f1)"
  shows "g d = Some Dir \<Longrightarrow> rmtree d g = Inr (\<lambda>p. if in_tree d p then None else g p)"
    and "g d = Some (File x) \<Longrightarrow> rmtree d g = Inl NotADirectoryError"
    and "g d = None \<Longrightarrow> isl (rmtree d g)"
proof -
  from mkdtemp_result [OF assms] obtain l where l: "normal l" "\<not> fixed l" "d = key l"
    by blast
  show "g d = Some Dir \<Longrightarrow> rmtree d g = Inr (\<lambda>p. if in_tree d p then None else g p)"
    using rmtree_key [OF l(1,2), of g] l(3) by simp
  show "g d = Some (File x) \<Longrightarrow> rmtree d g = Inl NotADirectoryError"
    using rmtree_key [OF l(1,2), of g] l(3) by simp
  show "g d = None \<Longrightarrow> isl (rmtree d g)"
    using rmtree_key [OF l(1,2), of g] l(3) by simp
qed

subsection \<open>Making directories only adds directories\<close>
















subsection \<open>Making a directory inside a directory\<close>











subsection \<open>The temporary directory and the parameters that are not read\<close>



lemma with_TemporaryDirectory_no_directory:
  "mkdtemp cands (fs w) = Inl e \<Longrightarrow> with_TemporaryDirectory cands body w = (Inl e, w)"
  by (simp add: with_TemporaryDirectory_def TemporaryDirectory_enter_def)

lemma run_stages_samplerate: "run_stages L (c\<lparr>samplerate := s\<rparr>) = run_stages L c"
  by (rule ext) (simp add: run_stages_def choose_rec_fname_def)

lemma run_stages_noise_overlap_threshold:
  "run_stages L (c\<lparr>noise_overlap_threshold := t\<rparr>) = run_stages L c"
  by (rule ext) (simp add: run_stages_def choose_rec_fname_def)

lemma run_noise_overlap_threshold:
  "run_on L cands (c\<lparr>noise_overlap_threshold := t\<rparr>) f = run_on L cands c f"
  by (simp add: run_on_def run_def run_stages_noise_overlap_threshold)

subsection \<open>The example, evaluated\<close>

lemma example_mkdtemp:
  "mkdtemp [''/tmp/w0''] example_fs = Inr (''/tmp/w0'', example_fs(''/tmp/w0'' \<mapsto> Dir))"
  by (simp add: fs_defs example_fs_def)

lemma example_result:
  "fst (run_on (example_libraries 0) [''/tmp/w0''] example_params example_fs) = Inr ()"
  by (simp add: eval_defs)

lemma example_trace:
  "trace (snd (run_on (example_libraries 0) [''/tmp/w0''] example_params example_fs)) =
     [Mkdtemp ''/tmp/w0'',
      Shell (mask_script ''in.mda'' ''/tmp/w0/raw.mda''),
      Readmda ''/tmp/w0/raw.mda'',
      NewRecording [[1, 2, 3], [4, 5, 6]] 30000 [[0, 0], [0, 0]],
      Bandpass example_recording 300 6000,
      Whiten (Filtered example_recording 300 6000),
      Mountainsort4 (Whitened (Filtered example_recording 300 6000)) (- 1) 50 50 3 10 2,
      WriteSorting (Sorted (Whitened (Filtered example_recording 300 6000)) (- 1) 50 50 3 10 2)
        ''firings.mda'',
      Rmtree ''/tmp/w0'']"
  by (simp add: eval_defs)

lemma example_files:
  "fs (snd (run_on (example_libraries 0) [''/tmp/w0''] example_params example_fs)) ''/tmp/w0'' = None"
  "fs (snd (run_on (example_libraries 0) [''/tmp/w0''] example_params example_fs))
     ''/tmp/w0/raw.mda'' = None"
  "fs (snd (run_on (example_libraries 0) [''/tmp/w0''] example_params example_fs))
     ''firings.mda'' = Some (File ''firings'')"
  by (simp_all add: eval_defs)


lemma example_unmasked_trace:
  "trace (snd (run_on (example_libraries 0) [''/tmp/w0''] example_unmasked example_fs)) =
     [Mkdtemp ''/tmp/w0'',
      Readmda ''in.mda'',
      NewRecording [[1, 2, 3], [4, 5, 6]] 30000 [[0, 0], [0, 0]],
      Bandpass example_recording 300 6000,
      Whiten (Filtered example_recording 300 6000),
      Mountainsort4 (Whitened (Filtered example_recording 300 6000)) (- 1) 50 50 3 10 2,
      WriteSorting (Sorted (Whitened (Filtered example_recording 300 6000)) (- 1) 50 50 3 10 2)
        ''firings.mda'',
      Rmtree ''/tmp/w0'']"
  by (simp add: eval_defs)

lemma example_failing:
  "fst (run_on (example_libraries 1) [''/tmp/w0''] example_params example_fs)
     = Inl (Exception ''problem running ms3.mask_out_artifacts'')"
  "trace (snd (run_on (example_libraries 1) [''/tmp/w0''] example_params example_fs)) =
     [Mkdtemp ''/tmp/w0'', Shell (mask_script ''in.mda'' ''/tmp/w0/raw.mda''), Rmtree ''/tmp/w0'']"
  "fs (snd (run_on (example_libraries 1) [''/tmp/w0''] example_params example_fs)) ''/tmp/w0'' = None"
  by (simp_all add: eval_defs)

lemma example_main:
  "fst (main_sorting example_args example_epochs example_fs) = Inr ()"
  "map fst (submitted (snd (main_sorting example_args example_epochs example_fs))) =
     [spike_sorting ''sha1://a'' ''out/e1/n1/firings.mda'' example_args,
      spike_sorting ''sha1://b'' ''out/e1/n2/firings.mda'' example_args]"
  "map (\<lambda>js. map (snd js) [''out'', ''out/e1'', ''out/e1/n1'', ''out/e1/n2''])
     (submitted (snd (main_sorting example_args example_epochs example_fs))) =
     [[Some Dir, Some Dir, Some Dir, None], [Some Dir, Some Dir, Some Dir, Some Dir]]"
  by (simp_all add: main_sorting_def fs_defs example_args_def example_epochs_def example_fs_def)




section \<open>A failing masking stage\<close>

text \<open>
  C2, as the code has it. When the masking script ends with an exit status other than 0,
  \<open>_mask_out_artifacts\<close> raises a plain \<open>Exception\<close> with the fixed message
  "problem running ms3.mask_out_artifacts", which names the operation and holds neither
  the script text nor the status. The run then ends with an exception (this one, when the
  temporary directory is still there to be removed), after exactly three calls: the
  directory is made, the script is run once, the directory is removed. No later stage is
  entered and the script is not run a second time.
\<close>

theorem mask_failure_aborts:
  assumes "mask_out_artifacts c"
    and "mkdtemp cands f = Inr (d, f1)"
    and "shell_run L (mask_script (recording_file_in c) (d @ ''/raw.mda'')) f1 = (Inr status, f2)"
    and "status \<noteq> 0"
  shows "fst (run_mask_out_artifacts L (recording_file_in c) (d @ ''/raw.mda'')
               \<lparr>fs = f1, trace = [Mkdtemp d]\<rparr>)
           = Inl (Exception ''problem running ms3.mask_out_artifacts'')
       \<and> isl (fst (run_on L cands c f))
       \<and> trace (snd (run_on L cands c f)) =
           [Mkdtemp d, Shell (mask_script (recording_file_in c) (d @ ''/raw.mda'')), Rmtree d]
       \<and> (f2 d = Some Dir \<longrightarrow>
            fst (run_on L cands c f) = Inl (Exception ''problem running ms3.mask_out_artifacts''))"
  using assms rmtree_mkdtemp(1) [OF assms(2), of f2]
  by (auto simp: run_defs tmp_defs stmt_defs split: sum.splits)

theorem mask_failure_aborts_witness:
  "mask_out_artifacts example_params
   \<and> mkdtemp [''/tmp/w0''] example_fs = Inr (''/tmp/w0'', example_fs(''/tmp/w0'' \<mapsto> Dir))
   \<and> shell_run (example_libraries 1) (mask_script (recording_file_in example_params) ''/tmp/w0/raw.mda'')
        (example_fs(''/tmp/w0'' \<mapsto> Dir)) = (Inr 1, example_fs(''/tmp/w0'' \<mapsto> Dir))
   \<and> (1::int) \<noteq> 0
   \<and> (example_fs(''/tmp/w0'' \<mapsto> Dir)) ''/tmp/w0'' = Some Dir
   \<and> fst (run_on (example_libraries 1) [''/tmp/w0''] example_params example_fs)
        = Inl (Exception ''problem running ms3.mask_out_artifacts'')
   \<and> trace (snd (run_on (example_libraries 1) [''/tmp/w0''] example_params example_fs)) =
        [Mkdtemp ''/tmp/w0'',
         Shell (mask_script (recording_file_in example_params) ''/tmp/w0/raw.mda''),
         Rmtree ''/tmp/w0'']"
proof -
  have h1: "mask_out_artifacts example_params"
    by (simp add: example_defs)
  have h3: "shell_run (example_libraries 1)
              (mask_script (recording_file_in example_params) (''/tmp/w0'' @ ''/raw.mda''))
              (example_fs(''/tmp/w0'' \<mapsto> Dir)) = (Inr 1, example_fs(''/tmp/w0'' \<mapsto> Dir))"
    by (simp add: example_libraries_def)
  have h4: "(1::int) \<noteq> 0"
    by simp
  from mask_failure_aborts [OF h1 example_mkdtemp h3 h4] h1 example_mkdtemp h3
  show ?thesis by (simp del: mkdtemp.simps)
qed

text \<open>
  The exception is the same value after exit status 1 and after exit status 2: the status
  cannot be read off it.
\<close>

theorem mask_error_hides_status:
  "fst (run_mask_out_artifacts (example_libraries 1) ''in.mda'' ''/tmp/w0/raw.mda'' example_world)
     = Inl (Exception ''problem running ms3.mask_out_artifacts'')
   \<and> fst (run_mask_out_artifacts (example_libraries 2) ''in.mda'' ''/tmp/w0/raw.mda'' example_world)
     = Inl (Exception ''problem running ms3.mask_out_artifacts'')"
  by (simp add: run_mask_out_artifacts_def stmt_defs example_libraries_def example_world_def)

section \<open>The temporary directory is removed\<close>




section \<open>The band-pass filter at zero bounds\<close>





section \<open>Which file is read\<close>

lemma masking_disabled:
  assumes "mkdtemp cands f = Inr (d, f1)" and "\<not> mask_out_artifacts c"
    and "run_on L cands c f = (r, w')"
  shows "take 2 (trace w') = [Mkdtemp d, Readmda (recording_file_in c)]
       \<and> (\<forall>s. Shell s \<notin> set (trace w'))
       \<and> (\<forall>p. Readmda p \<in> set (trace w') \<longrightarrow> p = recording_file_in c)"
  using assms
  by (auto simp: run_defs tmp_defs stmt_defs split: sum.splits prod.splits if_splits)

lemma masking_enabled:
  assumes "mkdtemp cands f = Inr (d, f1)" and "mask_out_artifacts c"
    and "run_on L cands c f = (r, w')"
  shows "take 2 (trace w') =
           [Mkdtemp d, Shell (mask_script (recording_file_in c) (d @ ''/raw.mda''))]
       \<and> (\<forall>s. Shell s \<in> set (trace w') \<longrightarrow> s = mask_script (recording_file_in c) (d @ ''/raw.mda''))
       \<and> (\<forall>p. Readmda p \<in> set (trace w') \<longrightarrow> p = d @ ''/raw.mda'')
       \<and> (\<forall>f2. shell_run L (mask_script (recording_file_in c) (d @ ''/raw.mda'')) f1 = (Inr 0, f2) \<longrightarrow>
            take 3 (trace w') =
              [Mkdtemp d, Shell (mask_script (recording_file_in c) (d @ ''/raw.mda'')),
               Readmda (d @ ''/raw.mda'')])"
  using assms
  by (auto simp: run_defs tmp_defs stmt_defs split: sum.splits prod.splits if_splits)

text \<open>
  The paths \<open>run\<close> works with. In a run that got its temporary directory \<open>d\<close>: with
  \<open>mask_out_artifacts\<close> set, the first call is the masking script, built from the
  original input path and the path \<open>d/raw.mda\<close> inside the temporary directory; no other
  script is run, no file but \<open>d/raw.mda\<close> is read, and when the script ends with status
  0 the next call reads \<open>d/raw.mda\<close>. With the flag not set, the first call reads the
  original input path, no other file is read and no script is run.
\<close>

lemma masking_selects_input:
  assumes "mkdtemp cands f = Inr (d, f1)"
  shows "(mask_out_artifacts c \<longrightarrow>
           take 2 (trace (snd (run_on L cands c f))) =
             [Mkdtemp d, Shell (mask_script (recording_file_in c) (d @ ''/raw.mda''))]
         \<and> below d (d @ ''/raw.mda'')
         \<and> (\<forall>s. Shell s \<in> set (trace (snd (run_on L cands c f))) \<longrightarrow>
              s = mask_script (recording_file_in c) (d @ ''/raw.mda''))
         \<and> (\<forall>p. Readmda p \<in> set (trace (snd (run_on L cands c f))) \<longrightarrow> p = d @ ''/raw.mda'')
         \<and> (\<forall>f2. shell_run L (mask_script (recording_file_in c) (d @ ''/raw.mda'')) f1 = (Inr 0, f2) \<longrightarrow>
              take 3 (trace (snd (run_on L cands c f))) =
                [Mkdtemp d, Shell (mask_script (recording_file_in c) (d @ ''/raw.mda'')),
                 Readmda (d @ ''/raw.mda'')]))
       \<and> (\<not> mask_out_artifacts c \<longrightarrow>
           take 2 (trace (snd (run_on L cands c f))) = [Mkdtemp d, Readmda (recording_file_in c)]
         \<and> (\<forall>s. Shell s \<notin> set (trace (snd (run_on L cands c f))))
         \<and> (\<forall>p. Readmda p \<in> set (trace (snd (run_on L cands c f))) \<longrightarrow> p = recording_file_in c))"
proof (cases "run_on L cands c f")
  case (Pair r w')
  show ?thesis
  proof (cases "mask_out_artifacts c")
    case True
    from masking_enabled [OF assms True Pair] below_raw [of d] True Pair
    show ?thesis by simp
  next
    case False
    from masking_disabled [OF assms False Pair] False Pair
    show ?thesis by simp
  qed
qed

text \<open>
  The text of the script: the input path follows \<open>--timeseries\<close>, the output path
  follows \<open>--timeserious_out\<close>.
\<close>

lemma mask_script_text:
  "mask_script timeseries_in timeseries_out =
     CHR 0x0A # ''    #!/bin/bash'' @ CHR 0x0A #
     ''    mp-run-process ms3.mask_out_artifacts --timeseries '' @ timeseries_in @
     '' --timeserious_out '' @ timeseries_out @ CHR 0x0A # ''    ''"
  by (simp add: mask_script_def)

lemma example_unmasked_reads_input:
  "take 2 (trace (snd (run_on (example_libraries 0) [''/tmp/w0''] example_unmasked example_fs))) =
     [Mkdtemp ''/tmp/w0'', Readmda ''in.mda'']"
  by (simp add: example_unmasked_trace)

text \<open>
  C5. With \<open>mask_out_artifacts\<close> set, as every run from \<open>main\<close> has it, the run of the
  example starts with three calls: the temporary directory is made, the masking script
  is run, and \<open>/tmp/w0/raw.mda\<close> is read. The script names the original input after
  \<open>--timeseries\<close>, and the file in the temporary directory after \<open>--timeserious_out\<close>:
  the flag for the output is misspelt, so the masking operation is not given the
  intermediate file under the name of its output, and the file that is read next is one
  the script was never told to write.
\<close>

theorem masking_output_flag_misspelt:
  "mask_out_artifacts example_params
   \<and> recording_file_in example_params = ''in.mda''
   \<and> take 3 (trace (snd (run_on (example_libraries 0) [''/tmp/w0''] example_params example_fs))) =
       [Mkdtemp ''/tmp/w0'',
        Shell (CHR 0x0A # ''    #!/bin/bash'' @ CHR 0x0A #
          ''    mp-run-process ms3.mask_out_artifacts --timeseries in.mda --timeserious_out /tmp/w0/raw.mda''
          @ CHR 0x0A # ''    ''),
        Readmda ''/tmp/w0/raw.mda'']"
  by (simp add: example_trace mask_script_def) (simp add: example_defs)

section \<open>The curation threshold\<close>

text \<open>
  C6. The sorter is called with the configured detect sign, adjacency radius, clip size,
  detection threshold and detection interval, but \<open>run\<close> never reads
  \<open>noise_overlap_threshold\<close>. In the example run, whose threshold is the default 0.15, the
  sorting that is written is the very value the sorter returned, no call lies between the
  two, and the run is the same as with no threshold at all.
\<close>

theorem curation_threshold_unused:
  "noise_overlap_threshold example_params = Some (15 / 100)
   \<and> trace (snd (run_on (example_libraries 0) [''/tmp/w0''] example_params example_fs)) =
       [Mkdtemp ''/tmp/w0'',
        Shell (mask_script ''in.mda'' ''/tmp/w0/raw.mda''),
        Readmda ''/tmp/w0/raw.mda'',
        NewRecording [[1, 2, 3], [4, 5, 6]] 30000 [[0, 0], [0, 0]],
        Bandpass example_recording 300 6000,
        Whiten (Filtered example_recording 300 6000),
        Mountainsort4 (Whitened (Filtered example_recording 300 6000)) (- 1) 50 50 3 10 2,
        WriteSorting (Sorted (Whitened (Filtered example_recording 300 6000)) (- 1) 50 50 3 10 2)
          ''firings.mda'',
        Rmtree ''/tmp/w0'']
   \<and> run_on (example_libraries 0) [''/tmp/w0'']
         (example_params\<lparr>noise_overlap_threshold := None\<rparr>) example_fs
       = run_on (example_libraries 0) [''/tmp/w0''] example_params example_fs"
  by (simp add: example_trace run_noise_overlap_threshold) (simp add: example_defs)

section \<open>One output path per ntrode\<close>














section \<open>The sampling rate parameter\<close>

lemma recording_events:
  assumes "run_on L cands c f = (r, w')"
  shows "\<forall>X sr g. NewRecording X sr g \<in> set (trace w') \<longrightarrow> sr = 30000"
  using assms
  by (auto simp: run_defs tmp_defs stmt_defs split: sum.splits prod.splits if_splits)

text \<open>
  C10. Two runs on the same file system whose parameters differ only in \<open>samplerate\<close>
  are the same run: the same outcome, the same files, the same calls. Every recording
  is built with the sampling rate 30000. The two parameter records are different all the
  same, as is every key computed from all the parameters.
\<close>

theorem samplerate_not_used:
  "run_on L cands (c\<lparr>samplerate := s\<rparr>) f = run_on L cands c f
   \<and> (\<forall>X sr g. NewRecording X sr g \<in> set (trace (snd (run_on L cands c f))) \<longrightarrow> sr = 30000)
   \<and> (s \<noteq> samplerate c \<longrightarrow> c\<lparr>samplerate := s\<rparr> \<noteq> c)"
proof (cases "run_on L cands c f")
  case (Pair r w')
  have "run_on L cands (c\<lparr>samplerate := s\<rparr>) f = run_on L cands c f"
    by (simp add: run_on_def run_def run_stages_samplerate)
  moreover have "s \<noteq> samplerate c \<longrightarrow> c\<lparr>samplerate := s\<rparr> \<noteq> c"
    by (metis CustomSorting.select_convs(3) CustomSorting.surjective CustomSorting.update_convs(3))
  ultimately show ?thesis
    using recording_events [OF Pair] Pair by simp
qed

theorem samplerate_not_used_witness:
  "(44100 :: real) \<noteq> samplerate example_params
   \<and> example_params\<lparr>samplerate := 44100\<rparr> \<noteq> example_params
   \<and> run_on (example_libraries 0) [''/tmp/w0''] (example_params\<lparr>samplerate := 44100\<rparr>) example_fs
       = run_on (example_libraries 0) [''/tmp/w0''] example_params example_fs
   \<and> NewRecording [[1, 2, 3], [4, 5, 6]] 30000 [[0, 0], [0, 0]]
       \<in> set (trace (snd (run_on (example_libraries 0) [''/tmp/w0'']
                 (example_params\<lparr>samplerate := 44100\<rparr>) example_fs)))"
proof -
  have h: "(44100 :: real) \<noteq> samplerate example_params"
    by (simp add: example_defs)
  note inst = samplerate_not_used
    [where L = "example_libraries 0" and cands = "[''/tmp/w0'']" and c = example_params
       and s = 44100 and f = example_fs]
  from inst h have "example_params\<lparr>samplerate := 44100\<rparr> \<noteq> example_params"
    by blast
  moreover from inst
  have "run_on (example_libraries 0) [''/tmp/w0''] (example_params\<lparr>samplerate := 44100\<rparr>) example_fs
       = run_on (example_libraries 0) [''/tmp/w0''] example_params example_fs"
    by blast
  ultimately show ?thesis
    using h by (simp add: example_trace)
qed

end
